theory Spec2Isabelle
  imports Complex_Main "HOL-Library.Char_ord" "HOL-Library.List_Lexorder" "HOL-Library.Sublist"
    "HOL-Library.Log_Nat"
begin

section \<open>Bookkeeping pipeline of app.py\<close>

text \<open>
  Amounts are Python floats in the source. They are modelled as exact real numbers:
  the sums that pandas computes have no fixed order of additions, so the rounding of
  binary floating point, overflow and the non-finite values are outside the model of the
  ledger, of the trial balance and of the VAT stage. calculate_vat is one fixed
  expression, and it is modelled a second time with every operation rounded to binary64.
  Text is a list of 8-bit characters.
\<close>

subsection \<open>Errors\<close>

datatype error =
    ValueError string
  | AttributeError
  | IndexError
  | KeyError string

subsection \<open>Ledger (class Ledger, and the posting loop of main)\<close>

record date =
  year :: nat
  month :: nat
  day :: nat

text \<open>A row of the classified data frame, as the posting loop reads it.\<close>

record labeled_row =
  Date :: date
  Description :: "string option"
  Amount :: real
  GL_Account :: string

record entry =
  e_Date :: date
  Account :: string
  Debit :: real
  Credit :: real
  Narrative :: "string option"

record ledger =
  entries :: "entry list"

definition Ledger_init :: ledger where
  "Ledger_init = \<lparr>entries = []\<rparr>"

definition post :: "ledger \<Rightarrow> date \<Rightarrow> string \<Rightarrow> real \<Rightarrow> real \<Rightarrow> string option \<Rightarrow> ledger" where
  "post l d account debit credit narrative =
     l\<lparr>entries := entries l @
        [\<lparr>e_Date = d, Account = account, Debit = debit, Credit = credit,
          Narrative = narrative\<rparr>]\<rparr>"

definition to_dataframe :: "ledger \<Rightarrow> entry list" where
  "to_dataframe l = entries l"

text \<open>One iteration of \<open>for _, r in df.iterrows()\<close> in main (lines 115 to 120).\<close>

definition post_row :: "ledger \<Rightarrow> labeled_row \<Rightarrow> ledger" where
  "post_row l r =
     (let amt = Amount r in
      if amt \<ge> 0 then post l (Date r) (GL_Account r) amt 0 (Description r)
      else post l (Date r) (GL_Account r) 0 (- amt) (Description r))"

fun post_rows :: "ledger \<Rightarrow> labeled_row list \<Rightarrow> ledger" where
  "post_rows l [] = l"
| "post_rows l (r # rs) = post_rows (post_row l r) rs"

text \<open>The entries that main derives from one row, on a fresh ledger.\<close>

definition entries_of_row :: "labeled_row \<Rightarrow> entry list" where
  "entries_of_row r = to_dataframe (post_row Ledger_init r)"

subsection \<open>Text operations of Python used by the source\<close>

text \<open>\<open>str.isspace\<close> on the ASCII range: tab to carriage return, the four separators
  and the space.\<close>

definition is_space :: "char \<Rightarrow> bool" where
  "is_space c = (let n = (of_char c :: nat) in (9 \<le> n \<and> n \<le> 13) \<or> (28 \<le> n \<and> n \<le> 32))"

definition strip :: "string \<Rightarrow> string" where
  "strip s = rev (dropWhile is_space (rev (dropWhile is_space s)))"

definition lower_chr :: "char \<Rightarrow> char" where
  "lower_chr c = (let n = (of_char c :: nat) in if 65 \<le> n \<and> n \<le> 90 then char_of (n + 32) else c)"

definition lower :: "string \<Rightarrow> string" where
  "lower s = map lower_chr s"

definition endswith :: "string \<Rightarrow> string \<Rightarrow> bool" where
  "endswith s suf = (length suf \<le> length s \<and> drop (length s - length suf) s = suf)"

text \<open>\<open>s.replace(old, new)\<close>: the occurrences of \<open>old\<close> are replaced from left to
  right, without overlap; an empty \<open>old\<close> matches before every character and at the end.\<close>

fun replace_ne :: "string \<Rightarrow> string \<Rightarrow> string \<Rightarrow> string" where
  "replace_ne old new [] = []"
| "replace_ne old new (c # cs) =
     (if prefix old (c # cs) then new @ replace_ne old new (drop (length old - 1) cs)
      else c # replace_ne old new cs)"

definition replace :: "string \<Rightarrow> string \<Rightarrow> string \<Rightarrow> string" where
  "replace s old new =
     (if old = [] then new @ concat (map (\<lambda>c. c # new) s) else replace_ne old new s)"

definition is_digit :: "char \<Rightarrow> bool" where
  "is_digit c = (let n = (of_char c :: nat) in 48 \<le> n \<and> n \<le> 57)"

definition digit_val :: "char \<Rightarrow> nat" where
  "digit_val c = of_char c - 48"

definition digits_val :: "string \<Rightarrow> nat" where
  "digits_val ds = foldl (\<lambda>a c. 10 * a + digit_val c) 0 ds"

subsection \<open>float(str)\<close>

text \<open>
  The values \<open>float\<close> can return. A finite value is the exact decimal value of the
  literal: the rounding to binary64 and the overflow to infinity are not modelled.
\<close>

datatype pyfloat = Finite real | PInf | NInf | NaN

fun fneg :: "pyfloat \<Rightarrow> pyfloat" where
  "fneg (Finite x) = Finite (- x)"
| "fneg PInf = NInf"
| "fneg NInf = PInf"
| "fneg NaN = NaN"

fun fsub :: "pyfloat \<Rightarrow> pyfloat \<Rightarrow> pyfloat" where
  "fsub (Finite x) (Finite y) = Finite (x - y)"
| "fsub NaN _ = NaN"
| "fsub _ NaN = NaN"
| "fsub PInf PInf = NaN"
| "fsub NInf NInf = NaN"
| "fsub PInf _ = PInf"
| "fsub NInf _ = NInf"
| "fsub (Finite x) PInf = NInf"
| "fsub (Finite x) NInf = PInf"

text \<open>\<open>digitpart ::= digit (["_"] digit)*\<close>. \<open>digitpart_tail\<close> reads what follows the
  first digit and returns the digits read, underscores left out, and the rest.\<close>

fun digitpart_tail :: "string \<Rightarrow> string \<times> string" where
  "digitpart_tail [] = ([], [])"
| "digitpart_tail [c] = (if is_digit c then ([c], []) else ([], [c]))"
| "digitpart_tail (c # d # cs) =
     (if is_digit c then (case digitpart_tail (d # cs) of (ds, r) \<Rightarrow> (c # ds, r))
      else if c = CHR ''_'' \<and> is_digit d then (case digitpart_tail cs of (ds, r) \<Rightarrow> (d # ds, r))
      else ([], c # d # cs))"

definition digitpart :: "string \<Rightarrow> (string \<times> string) option" where
  "digitpart s =
     (case s of [] \<Rightarrow> None
      | c # cs \<Rightarrow> if is_digit c then (case digitpart_tail cs of (ds, r) \<Rightarrow> Some (c # ds, r))
                 else None)"

text \<open>An optional sign: whether it is a minus, and the rest.\<close>

definition opt_sign :: "string \<Rightarrow> bool \<times> string" where
  "opt_sign s =
     (case s of [] \<Rightarrow> (False, [])
      | c # cs \<Rightarrow> if c = CHR ''-'' then (True, cs) else if c = CHR ''+'' then (False, cs)
                 else (False, c # cs))"

text \<open>\<open>number ::= [digitpart] "." digitpart | digitpart ["."]\<close>: the digits before the
  point, the digits after it, and the rest.\<close>

definition number :: "string \<Rightarrow> (string \<times> string \<times> string) option" where
  "number s =
     (case digitpart s of
        Some (ip, r) \<Rightarrow>
          (case r of
             [] \<Rightarrow> Some (ip, [], [])
           | c # cs \<Rightarrow>
               if c = CHR ''.'' then
                 (case digitpart cs of Some (fp, r') \<Rightarrow> Some (ip, fp, r')
                  | None \<Rightarrow> Some (ip, [], cs))
               else Some (ip, [], c # cs))
      | None \<Rightarrow>
          (case s of
             [] \<Rightarrow> None
           | c # cs \<Rightarrow>
               if c = CHR ''.'' then
                 (case digitpart cs of Some (fp, r') \<Rightarrow> Some ([], fp, r') | None \<Rightarrow> None)
               else None))"

text \<open>\<open>exponent ::= ("e" | "E") [sign] digitpart\<close>, to the end of the text. No exponent
  is the exponent 0.\<close>

definition exponent :: "string \<Rightarrow> int option" where
  "exponent s =
     (case s of [] \<Rightarrow> Some 0
      | c # cs \<Rightarrow>
          if c = CHR ''e'' \<or> c = CHR ''E'' then
            (case opt_sign cs of (neg, r) \<Rightarrow>
               (case digitpart r of
                  Some (ds, []) \<Rightarrow> Some (if neg then - int (digits_val ds) else int (digits_val ds))
                | _ \<Rightarrow> None))
          else None)"

definition scale10 :: "real \<Rightarrow> int \<Rightarrow> real" where
  "scale10 x e = (if 0 \<le> e then x * 10 ^ nat e else x / 10 ^ nat (- e))"

definition floatnumber :: "string \<Rightarrow> real option" where
  "floatnumber s =
     (case number s of None \<Rightarrow> None
      | Some (ip, fp, r) \<Rightarrow>
          (case exponent r of None \<Rightarrow> None
           | Some e \<Rightarrow>
               Some (scale10 (real (digits_val ip) + real (digits_val fp) / 10 ^ length fp) e)))"

definition absfloatvalue :: "string \<Rightarrow> pyfloat option" where
  "absfloatvalue s =
     (if lower s = ''inf'' \<or> lower s = ''infinity'' then Some PInf
      else if lower s = ''nan'' then Some NaN
      else map_option Finite (floatnumber s))"

text \<open>\<open>repr\<close> of a text without quotes and control characters: the text in single
  quotes.\<close>

definition repr :: "string \<Rightarrow> string" where
  "repr s = CHR 0x27 # s @ [CHR 0x27]"

definition py_float :: "string \<Rightarrow> error + pyfloat" where
  "py_float s =
     (case opt_sign (strip s) of (neg, r) \<Rightarrow>
        (case absfloatvalue r of
           None \<Rightarrow> Inl (ValueError (''could not convert string to float: '' @ repr s))
         | Some v \<Rightarrow> Inr (if neg then fneg v else v)))"

subsection \<open>to_num, the amount normaliser nested in parse_bank_statement\<close>

text \<open>A cell of an extracted table is a text or None.\<close>

type_synonym cell = "string option"

definition to_num :: "cell \<Rightarrow> error + pyfloat" where
  "to_num x =
     (case x of None \<Rightarrow> Inr (Finite 0)
      | Some s \<Rightarrow>
          if s = [] then Inr (Finite 0)
          else py_float (replace (replace (replace (replace s '' '' []) '','' []) ''R'' []) ''ZAR'' []))"

subsection \<open>datetime.strptime(date_str, "%d/%m/%Y")\<close>

text \<open>
  The directives are regular expressions, tried as alternatives in this order:
  \<open>%d\<close> is \<open>3[0-1]|[1-2]\d|0[1-9]|[1-9]| [1-9]\<close>, \<open>%m\<close> is \<open>1[0-2]|0[1-9]|[1-9]\<close>
  and \<open>%Y\<close> is \<open>\d\d\d\d\<close>. No alternative holds a slash, so the day is the text
  before the first slash and the month the text between the first two. The whole text
  has to match, and the three numbers have to be a date of the calendar (years 1 to 9999).
\<close>

definition re_d :: "string \<Rightarrow> nat option" where
  "re_d s =
     (case s of
        [a] \<Rightarrow> if is_digit a \<and> a \<noteq> CHR ''0'' then Some (digit_val a) else None
      | [a, b] \<Rightarrow>
          if a = CHR ''3'' \<and> (b = CHR ''0'' \<or> b = CHR ''1'') then Some (30 + digit_val b)
          else if (a = CHR ''1'' \<or> a = CHR ''2'') \<and> is_digit b then Some (10 * digit_val a + digit_val b)
          else if a = CHR ''0'' \<and> is_digit b \<and> b \<noteq> CHR ''0'' then Some (digit_val b)
          else if a = CHR '' '' \<and> is_digit b \<and> b \<noteq> CHR ''0'' then Some (digit_val b)
          else None
      | _ \<Rightarrow> None)"

definition re_m :: "string \<Rightarrow> nat option" where
  "re_m s =
     (case s of
        [a] \<Rightarrow> if is_digit a \<and> a \<noteq> CHR ''0'' then Some (digit_val a) else None
      | [a, b] \<Rightarrow>
          if a = CHR ''1'' \<and> (b = CHR ''0'' \<or> b = CHR ''1'' \<or> b = CHR ''2'') then Some (10 + digit_val b)
          else if a = CHR ''0'' \<and> is_digit b \<and> b \<noteq> CHR ''0'' then Some (digit_val b)
          else None
      | _ \<Rightarrow> None)"

definition re_Y :: "string \<Rightarrow> nat option" where
  "re_Y s = (if length s = 4 \<and> list_all is_digit s then Some (digits_val s) else None)"

definition is_leap :: "nat \<Rightarrow> bool" where
  "is_leap y = (y mod 4 = 0 \<and> (y mod 100 \<noteq> 0 \<or> y mod 400 = 0))"

definition days_in_month :: "nat \<Rightarrow> nat \<Rightarrow> nat" where
  "days_in_month y m =
     (if m = 2 then (if is_leap y then 29 else 28)
      else if m = 4 \<or> m = 6 \<or> m = 9 \<or> m = 11 then 30 else 31)"

text \<open>The text before the first slash and the text after it; None without a slash.\<close>

definition cut_slash :: "string \<Rightarrow> (string \<times> string) option" where
  "cut_slash s =
     (case dropWhile (\<lambda>c. c \<noteq> CHR ''/'') s of
        [] \<Rightarrow> None
      | _ # r \<Rightarrow> Some (takeWhile (\<lambda>c. c \<noteq> CHR ''/'') s, r))"

definition strptime_dmY :: "string \<Rightarrow> date option" where
  "strptime_dmY s =
     (case cut_slash s of None \<Rightarrow> None
      | Some (ds, r) \<Rightarrow>
     (case cut_slash r of None \<Rightarrow> None
      | Some (ms, ys) \<Rightarrow>
     (case re_d ds of None \<Rightarrow> None
      | Some d \<Rightarrow>
     (case re_m ms of None \<Rightarrow> None
      | Some m \<Rightarrow>
     (case re_Y ys of None \<Rightarrow> None
      | Some y \<Rightarrow>
          if 1 \<le> y \<and> d \<le> days_in_month y m
          then Some \<lparr>year = y, month = m, day = d\<rparr> else None)))))"

subsection \<open>The PDF branch of parse_bank_statement (lines 26 to 50)\<close>

type_synonym row = "cell list"

text \<open>What \<open>page.extract_table()\<close> returns: None, or the rows of the table.\<close>

type_synonym page = "row list option"

text \<open>The dictionary appended to \<open>records\<close>.\<close>

record pdf_record =
  r_Date :: date
  r_Description :: cell
  r_Amount :: pyfloat

text \<open>
  The body of \<open>for row in table[1:]\<close>: an exception, or the records after the row.
  \<open>row[0]\<close> of an empty row raises IndexError; \<open>.strip()\<close> of a None cell raises
  AttributeError, and it stands before the \<open>try\<close>; the failure of \<open>strptime\<close>
  is caught and the row left out.
\<close>

definition pdf_row :: "row \<Rightarrow> pdf_record list \<Rightarrow> row \<Rightarrow> error + pdf_record list" where
  "pdf_row headers records row =
     (if row = headers then Inr records
      else case row of
        [] \<Rightarrow> Inl IndexError
      | None # _ \<Rightarrow> Inl AttributeError
      | Some c0 # _ \<Rightarrow>
          (let date_str = strip c0 in
           case strptime_dmY date_str of
             None \<Rightarrow> Inr records
           | Some dt \<Rightarrow>
               (let desc = (if length row > 2 then row ! 2 else Some []) in
                case (if length row > 3 then to_num (row ! 3) else Inr (Finite 0)) of
                  Inl e \<Rightarrow> Inl e
                | Inr money_in \<Rightarrow>
                    (case (if length row > 4 then to_num (row ! 4) else Inr (Finite 0)) of
                       Inl e \<Rightarrow> Inl e
                     | Inr money_out \<Rightarrow>
                         (let amt = fsub money_in money_out in
                          Inr (records @
                               [\<lparr>r_Date = dt, r_Description = desc, r_Amount = amt\<rparr>]))))))"

fun pdf_rows :: "row \<Rightarrow> pdf_record list \<Rightarrow> row list \<Rightarrow> error + pdf_record list" where
  "pdf_rows headers records [] = Inr records"
| "pdf_rows headers records (row # rest) =
     (case pdf_row headers records row of
        Inl e \<Rightarrow> Inl e
      | Inr records' \<Rightarrow> pdf_rows headers records' rest)"

text \<open>\<open>for page in pdf.pages\<close>; \<open>not table\<close> holds of None and of the empty list.\<close>

fun pdf_pages :: "pdf_record list \<Rightarrow> page list \<Rightarrow> error + pdf_record list" where
  "pdf_pages records [] = Inr records"
| "pdf_pages records (None # pages) = pdf_pages records pages"
| "pdf_pages records (Some [] # pages) = pdf_pages records pages"
| "pdf_pages records (Some (headers # rest) # pages) =
     (case pdf_rows headers records rest of
        Inl e \<Rightarrow> Inl e
      | Inr records' \<Rightarrow> pdf_pages records' pages)"

subsection \<open>Data frames, and the common end of parse_bank_statement (lines 54 to 59)\<close>

datatype val = VDate date | VStr string | VNum pyfloat | VNone

record frame =
  columns :: "string list"
  rows :: "val list list"

text \<open>\<open>pd.DataFrame(records)\<close>: the columns are the keys of the dictionaries, so the
  frame of no record has no column.\<close>

definition val_of_cell :: "cell \<Rightarrow> val" where
  "val_of_cell c = (case c of None \<Rightarrow> VNone | Some s \<Rightarrow> VStr s)"

definition DataFrame :: "pdf_record list \<Rightarrow> frame" where
  "DataFrame records =
     (if records = [] then \<lparr>columns = [], rows = []\<rparr>
      else \<lparr>columns = [''Date'', ''Description'', ''Amount''],
            rows = map (\<lambda>r. [VDate (r_Date r), val_of_cell (r_Description r), VNum (r_Amount r)])
                       records\<rparr>)"

text \<open>
  \<open>pd.to_datetime(..., dayfirst=True)\<close> keeps a value that is a date already; what it
  does with a text, a number or a missing value is the parameter \<open>conv\<close>.
\<close>

definition to_datetime :: "(val \<Rightarrow> error + val) \<Rightarrow> val \<Rightarrow> error + val" where
  "to_datetime conv v = (case v of VDate d \<Rightarrow> Inr (VDate d) | _ \<Rightarrow> conv v)"

text \<open>The Date column converted, and the three canonical columns kept, row by row.
  A row of a frame has one value for each column, so no row is empty once the frame
  has three columns.\<close>

fun convert_rows :: "(val \<Rightarrow> error + val) \<Rightarrow> val list list \<Rightarrow> error + val list list" where
  "convert_rows conv [] = Inr []"
| "convert_rows conv (r # rs) =
     (case r of
        [] \<Rightarrow> Inl IndexError
      | v # vs \<Rightarrow>
          (case to_datetime conv v of
             Inl e \<Rightarrow> Inl e
           | Inr d \<Rightarrow>
               (case convert_rows conv rs of
                  Inl e \<Rightarrow> Inl e
                | Inr rs' \<Rightarrow> Inr ((d # take 2 vs) # rs'))))"

definition canonical :: "(val \<Rightarrow> error + val) \<Rightarrow> frame \<Rightarrow> error + frame" where
  "canonical conv df =
     (let cols = map strip (columns df) in
      if length cols < 3
      then Inl (ValueError ''Statement must have Date, Description, Amount columns.'')
      else
        (let cols' = [''Date'', ''Description'', ''Amount''] @ drop 3 cols in
         case convert_rows conv (rows df) of
           Inl e \<Rightarrow> Inl e
         | Inr rs \<Rightarrow> Inr \<lparr>columns = take 3 cols', rows = rs\<rparr>))"

text \<open>
  An uploaded file: its name, and what the two libraries read from its bytes
  (\<open>pdfplumber.open(...).pages\<close> with \<open>extract_table\<close>, and \<open>pd.read_excel\<close>).
\<close>

record uploaded_file =
  name :: string
  pdf_tables :: "page list"
  read_excel :: frame

definition parse_bank_statement :: "(val \<Rightarrow> error + val) \<Rightarrow> uploaded_file \<Rightarrow> error + frame" where
  "parse_bank_statement conv uploaded =
     (if endswith (lower (name uploaded)) ''.pdf''
      then (case pdf_pages [] (pdf_tables uploaded) of
              Inl e \<Rightarrow> Inl e
            | Inr records \<Rightarrow> canonical conv (DataFrame records))
      else canonical conv (read_excel uploaded))"

text \<open>The first stage of main (lines 100 to 106): the parsed frame is shown, or the
  error is reported and main returns.\<close>

datatype shown = Parsing_error error | Parsed_Transactions frame

definition main_parse :: "(val \<Rightarrow> error + val) \<Rightarrow> uploaded_file \<Rightarrow> shown" where
  "main_parse conv uploaded =
     (case parse_bank_statement conv uploaded of
        Inl e \<Rightarrow> Parsing_error e
      | Inr df \<Rightarrow> Parsed_Transactions df)"

subsection \<open>trial_balance (lines 86 to 90)\<close>

text \<open>
  \<open>df.groupby("Account")\<close> raises KeyError on the frame of an empty list of entries,
  which has no column. Otherwise the groups come in the sorted order of their keys, and
  \<open>agg\<close> sums the Debit and the Credit column of each group.
\<close>

record tb_row =
  tb_Account :: string
  tb_Debit :: real
  tb_Credit :: real
  tb_Balance :: real

definition group :: "entry list \<Rightarrow> string \<Rightarrow> entry list" where
  "group df a = filter (\<lambda>e. Account e = a) df"

definition groupby_sum :: "entry list \<Rightarrow> error + (string \<times> real \<times> real) list" where
  "groupby_sum df =
     (if df = [] then Inl (KeyError ''Account'')
      else Inr (map (\<lambda>a. (a, sum_list (map Debit (group df a)), sum_list (map Credit (group df a))))
                    (sort (remdups (map Account df)))))"

definition trial_balance :: "ledger \<Rightarrow> error + tb_row list" where
  "trial_balance l =
     (let df = to_dataframe l in
      case groupby_sum df of
        Inl e \<Rightarrow> Inl e
      | Inr tb \<Rightarrow>
          Inr (map (\<lambda>(a, d, c). \<lparr>tb_Account = a, tb_Debit = d, tb_Credit = c, tb_Balance = d - c\<rparr>)
                   tb))"

subsection \<open>calculate_vat and the VAT stage of main (lines 141 to 147)\<close>

definition VAT_RATE :: real where
  "VAT_RATE = 15 / 100"

text \<open>\<open>round(x, n)\<close> of Python: to the nearest multiple of \<open>10 ^ (- n)\<close>, a tie going
  to the even one.\<close>

definition py_round :: "real \<Rightarrow> nat \<Rightarrow> real" where
  "py_round x n =
     (let y = x * 10 ^ n; f = \<lfloor>y\<rfloor>; d = y - of_int f;
          r = (if d < 1 / 2 then f else if 1 / 2 < d then f + 1
               else if even f then f else f + 1)
      in of_int r / 10 ^ n)"

definition calculate_vat :: "real \<Rightarrow> real" where
  "calculate_vat amount = py_round (amount * VAT_RATE / (1 + VAT_RATE)) 2"

text \<open>
  The same function on binary64 values. \<open>b64\<close> rounds a real number to 53 significant
  bits, to the nearest value and to the even one at a tie; the range of the exponent is
  not bounded. \<open>binade x\<close> is the exponent \<open>e\<close> with \<open>2 ^ e \<le> x < 2 ^ (e + 1)\<close>.
  The constant 0.15, the sum, the product and the quotient are rounded, and
  \<open>round(x, 2)\<close> of a float is the float nearest to the decimal rounding of \<open>x\<close>.
\<close>

definition binade :: "real \<Rightarrow> int" where
  "binade x = (if 1 \<le> x then bitlen \<lfloor>x\<rfloor> - 1 else - bitlen (\<lceil>1 / x\<rceil> - 1))"

definition scale2 :: "real \<Rightarrow> int \<Rightarrow> real" where
  "scale2 x e = (if 0 \<le> e then x * 2 ^ nat e else x / 2 ^ nat (- e))"

definition b64 :: "real \<Rightarrow> real" where
  "b64 x =
     (if x = 0 then 0
      else (let e = binade \<bar>x\<bar> - 52 in scale2 (py_round (scale2 x (- e)) 0) e))"


text \<open>
  \<open>Series.str.contains(pat, case=False)\<close> for a pattern that is an alternation of
  plain words, as both patterns of main are: some alternative occurs somewhere in the
  text, letters compared without their case.
\<close>

fun split_bar :: "string \<Rightarrow> string list" where
  "split_bar [] = [[]]"
| "split_bar (c # cs) =
     (if c = CHR ''|'' then [] # split_bar cs
      else (case split_bar cs of w # ws \<Rightarrow> (c # w) # ws | [] \<Rightarrow> [[c]]))"

fun occurs :: "string \<Rightarrow> string \<Rightarrow> bool" where
  "occurs w [] = (w = [])"
| "occurs w (c # cs) = (prefix w (c # cs) \<or> occurs w cs)"

definition str_contains :: "string \<Rightarrow> string \<Rightarrow> bool" where
  "str_contains pat s = list_ex (\<lambda>w. occurs (lower w) (lower s)) (split_bar pat)"

definition balance_sum :: "string \<Rightarrow> tb_row list \<Rightarrow> real" where
  "balance_sum pat tb = sum_list (map tb_Balance (filter (\<lambda>r. str_contains pat (tb_Account r)) tb))"

record vat_report =
  VAT_on_Outputs :: real
  VAT_on_Inputs :: real
  Net_VAT_Due :: real

definition vat_stage :: "tb_row list \<Rightarrow> vat_report" where
  "vat_stage tb =
     (let sales = balance_sum ''Sales|Revenue'' tb;
          purchases = balance_sum ''Expenses|Purchases'' tb;
          vat_out = calculate_vat sales;
          vat_in = calculate_vat purchases
      in \<lparr>VAT_on_Outputs = vat_out, VAT_on_Inputs = vat_in, Net_VAT_Due = vat_out - vat_in\<rparr>)"

subsection \<open>The matching of account names, in the words of the specification\<close>


section \<open>Properties\<close>

subsection \<open>The amount normaliser\<close>

text \<open>
  Claim C1, at the token \<open>ZAR 1,234.50\<close>: the R is removed before ZAR is looked
  for, the text left is \<open>ZA1234.50\<close> and \<open>float\<close> raises ValueError, while
  \<open>1234.50\<close> normalises to 1234.5.
\<close>

theorem to_num_ZAR_marker_fails:
  "to_num (Some ''ZAR 1,234.50'') =
     Inl (ValueError (''could not convert string to float: '' @ repr ''ZA1234.50'')) \<and>
   to_num (Some ''1234.50'') = Inr (Finite (2469 / 2))"
  by code_simp

lemma to_num_R_marker: "to_num (Some ''R 1,234.50'') = to_num (Some ''1234.50'')"
  by code_simp

lemma to_num_missing: "to_num None = Inr (Finite 0)" "to_num (Some []) = Inr (Finite 0)"
  by (simp_all add: to_num_def)

lemma replace_ne_absent:
  "c \<in> set old \<Longrightarrow> c \<notin> set s \<Longrightarrow> replace_ne old new s = s"
proof (induction s)
  case Nil
  then show ?case by simp
next
  case (Cons a s)
  have "\<not> prefix old (a # s)"
  proof
    assume "prefix old (a # s)"
    then have "set old \<subseteq> set (a # s)" by (rule set_mono_prefix)
    with Cons.prems show False by auto
  qed
  with Cons show ?case by simp
qed

lemma replace_char: "replace s [c] [] = filter (\<lambda>x. x \<noteq> c) s"
  by (induction s) (auto simp: replace_def)

lemma replace_ZAR_dead: "replace (replace s ''R'' []) ''ZAR'' [] = replace s ''R'' []"
proof -
  have "CHR ''R'' \<notin> set (replace s ''R'' [])" by (simp add: replace_char)
  then show ?thesis
    by (simp add: replace_def replace_ne_absent [of "CHR ''R''"])
qed

lemma to_num_cleaned:
  "s \<noteq> [] \<Longrightarrow> to_num (Some s) =
     py_float (filter (\<lambda>x. x \<noteq> CHR ''R'') (filter (\<lambda>x. x \<noteq> CHR '','') (filter (\<lambda>x. x \<noteq> CHR '' '') s)))"
  by (simp add: to_num_def replace_ZAR_dead) (simp add: replace_char)

lemma strip_keeps_head:
  "\<not> is_space c \<Longrightarrow> \<exists>u. strip (c # t) = c # u"
proof -
  assume c: "\<not> is_space c"
  have "dropWhile is_space (rev t @ [c]) = dropWhile is_space (rev t) @ [c]"
    using c by (simp add: dropWhile_append3)
  with c show ?thesis by (simp add: strip_def)
qed

lemma py_float_leading_Z:
  "\<exists>msg. py_float (CHR ''Z'' # t) = Inl (ValueError msg)"
proof -
  have "\<not> is_space CHR ''Z''" by (simp add: is_space_def)
  from strip_keeps_head [OF this] obtain u where u: "strip (CHR ''Z'' # t) = CHR ''Z'' # u"
    by blast
  have z: "lower_chr CHR ''Z'' = CHR ''z''" by code_simp
  have "absfloatvalue (CHR ''Z'' # u) = None"
    by (simp add: absfloatvalue_def lower_def z floatnumber_def number_def
        digitpart_def is_digit_def)
  then show ?thesis by (simp add: py_float_def u opt_sign_def)
qed

lemma to_num_ZAR_prefix_fails:
  "\<exists>msg. to_num (Some (''ZAR'' @ s)) = Inl (ValueError msg)"
  using py_float_leading_Z by (simp add: to_num_cleaned)

lemma to_num_R_prefix:
  "s \<noteq> [] \<Longrightarrow> to_num (Some (''R '' @ s)) = to_num (Some s)"
  by (simp add: to_num_cleaned)

subsection \<open>The statement parser\<close>




lemma pdf_row_unparsable_text:
  "strptime_dmY (strip s) = None \<Longrightarrow> pdf_row headers records (Some s # rest) = Inr records"
  by (simp add: pdf_row_def)

lemma pdf_rows_skip_unparsable_text:
  "strptime_dmY (strip s) = None \<Longrightarrow>
   pdf_rows headers records ((Some s # rest) # others) = pdf_rows headers records others"
  by (simp add: pdf_row_unparsable_text)

lemma pdf_row_missing_date:
  "None # rest \<noteq> headers \<Longrightarrow> pdf_row headers records (None # rest) = Inl AttributeError"
  by (simp add: pdf_row_def)

lemma empty_date_unparsable: "strptime_dmY (strip []) = None"
  by code_simp

text \<open>
  Claim C7, at a row whose date cell is None: \<open>row[0].strip()\<close> raises
  AttributeError before the \<open>try\<close>, the rows after it are not read, and main
  reports a parsing error.
\<close>

theorem missing_date_cell_raises:
  "pdf_pages []
     [Some [[Some ''Date'', Some ''Ref'', Some ''Description'', Some ''In'', Some ''Out''],
            [None, None, Some ''continued'', None, None],
            [Some ''01/02/2024'', Some ''7'', Some ''Sale A'', Some ''R 1,000.00'', None]]] =
     Inl AttributeError \<and>
   main_parse (\<lambda>v. Inr v)
     \<lparr>name = ''jan.pdf'',
      pdf_tables =
        [Some [[Some ''Date'', Some ''Ref'', Some ''Description'', Some ''In'', Some ''Out''],
               [None, None, Some ''continued'', None, None],
               [Some ''01/02/2024'', Some ''7'', Some ''Sale A'', Some ''R 1,000.00'', None]]],
      read_excel = \<lparr>columns = [], rows = []\<rparr>\<rparr> = Parsing_error AttributeError"
  by code_simp

lemma empty_date_cell_dropped:
  "pdf_pages []
     [Some [[Some ''Date'', Some ''Ref'', Some ''Description'', Some ''In'', Some ''Out''],
            [Some '''', None, Some ''continued'', None, None],
            [Some ''31/02/2024'', None, Some ''no such day'', None, None],
            [Some ''01/02/2024'', Some ''7'', Some ''Sale A'', Some ''R 1,000.00'', None]]] =
     Inr [\<lparr>r_Date = \<lparr>year = 2024, month = 2, day = 1\<rparr>, r_Description = Some ''Sale A'',
           r_Amount = Finite 1000\<rparr>]"
  by code_simp

lemma pdf_pages_no_tables:
  "list_all (\<lambda>p. p = None \<or> p = Some []) pages \<Longrightarrow> pdf_pages records pages = Inr records"
  by (induction records pages rule: pdf_pages.induct) simp_all

lemma convert_rows_length: "convert_rows conv rs = Inr rs' \<Longrightarrow> length rs' = length rs"
  by (induction rs arbitrary: rs') (auto split: list.splits sum.splits)

text \<open>
  Claim C10. A PDF from which no record is extracted does not give an empty sequence of
  transactions: parse_bank_statement fails with the schema error of an under-columned
  spreadsheet, and a frame that it does return for a PDF has at least one row.
\<close>

theorem pdf_without_rows_is_schema_error:
  "endswith (lower (name uploaded)) ''.pdf'' \<Longrightarrow>
   (pdf_pages [] (pdf_tables uploaded) = Inr [] \<longrightarrow>
      parse_bank_statement conv uploaded =
        Inl (ValueError ''Statement must have Date, Description, Amount columns.'')) \<and>
   (\<forall>df. parse_bank_statement conv uploaded = Inr df \<longrightarrow> rows df \<noteq> [])"
proof -
  assume pdf: "endswith (lower (name uploaded)) ''.pdf''"
  have a: "pdf_pages [] (pdf_tables uploaded) = Inr [] \<longrightarrow>
      parse_bank_statement conv uploaded =
        Inl (ValueError ''Statement must have Date, Description, Amount columns.'')"
    using pdf by (simp add: parse_bank_statement_def DataFrame_def canonical_def)
  have b: "rows df \<noteq> []" if ok: "parse_bank_statement conv uploaded = Inr df" for df
  proof -
    from ok pdf obtain records where r: "pdf_pages [] (pdf_tables uploaded) = Inr records"
      and c: "canonical conv (DataFrame records) = Inr df"
      by (auto simp: parse_bank_statement_def split: sum.splits)
    from c a r ok have ne: "records \<noteq> []" by auto
    from c obtain rs where cr: "convert_rows conv (rows (DataFrame records)) = Inr rs"
      and df: "rows df = rs"
      by (auto simp: canonical_def Let_def split: if_splits sum.splits)
    from convert_rows_length [OF cr] ne have "length rs = length records"
      by (simp add: DataFrame_def)
    with ne df show ?thesis by auto
  qed
  from a b show ?thesis by blast
qed

theorem pdf_without_rows_is_schema_error_witness:
  "endswith (lower ''jan.pdf'') ''.pdf'' \<and>
   pdf_pages [] [None, Some [[Some ''Date'', Some ''Ref'', Some ''Description''],
                             [Some ''Opening balance'', None, None]]] = Inr [] \<and>
   parse_bank_statement (\<lambda>v. Inr v)
     \<lparr>name = ''jan.pdf'',
      pdf_tables = [None, Some [[Some ''Date'', Some ''Ref'', Some ''Description''],
                                [Some ''Opening balance'', None, None]]],
      read_excel = \<lparr>columns = [], rows = []\<rparr>\<rparr> =
     Inl (ValueError ''Statement must have Date, Description, Amount columns.'')"
proof -
  have h1: "endswith (lower ''jan.pdf'') ''.pdf''" by code_simp
  have h2: "pdf_pages [] [None, Some [[Some ''Date'', Some ''Ref'', Some ''Description''],
                             [Some ''Opening balance'', None, None]]] = Inr []" by code_simp
  show ?thesis
    using h1 h2 pdf_without_rows_is_schema_error [of "\<lparr>name = ''jan.pdf'',
      pdf_tables = [None, Some [[Some ''Date'', Some ''Ref'', Some ''Description''],
                                [Some ''Opening balance'', None, None]]],
      read_excel = \<lparr>columns = [], rows = []\<rparr>\<rparr>" "\<lambda>v. Inr v"]
    by simp
qed

subsection \<open>Posting\<close>

lemma entries_post_row:
  "entries (post_row l r) = entries l @
     [\<lparr>e_Date = Date r, Account = GL_Account r,
       Debit = (if 0 \<le> Amount r then Amount r else 0),
       Credit = (if 0 \<le> Amount r then 0 else - Amount r),
       Narrative = Description r\<rparr>]"
  by (simp add: post_row_def post_def Let_def)

lemma entries_post_rows:
  "entries (post_rows l rs) = entries l @
     map (\<lambda>r. \<lparr>e_Date = Date r, Account = GL_Account r,
       Debit = (if 0 \<le> Amount r then Amount r else 0),
       Credit = (if 0 \<le> Amount r then 0 else - Amount r),
       Narrative = Description r\<rparr>) rs"
  by (induction rs arbitrary: l) (simp_all add: entries_post_row)

text \<open>
  Claim C2. Posting an ordered sequence of labeled rows adds exactly one entry for each
  row, after the entries the ledger held and in the order of the rows; the entry of a
  row with amount at least 0 is a debit of the amount to the account of the row, the
  entry of a row with a negative amount is a credit of the negated amount.
\<close>

theorem posting_one_entry_per_row_in_order:
  "length (to_dataframe (post_rows l rs)) = length (to_dataframe l) + length rs \<and>
   take (length (to_dataframe l)) (to_dataframe (post_rows l rs)) = to_dataframe l \<and>
   (\<forall>i < length rs.
      Account (to_dataframe (post_rows l rs) ! (length (to_dataframe l) + i)) = GL_Account (rs ! i) \<and>
      e_Date (to_dataframe (post_rows l rs) ! (length (to_dataframe l) + i)) = Date (rs ! i) \<and>
      Narrative (to_dataframe (post_rows l rs) ! (length (to_dataframe l) + i)) = Description (rs ! i) \<and>
      (0 \<le> Amount (rs ! i) \<longrightarrow>
         Debit (to_dataframe (post_rows l rs) ! (length (to_dataframe l) + i)) = Amount (rs ! i) \<and>
         Credit (to_dataframe (post_rows l rs) ! (length (to_dataframe l) + i)) = 0) \<and>
      (Amount (rs ! i) < 0 \<longrightarrow>
         Debit (to_dataframe (post_rows l rs) ! (length (to_dataframe l) + i)) = 0 \<and>
         Credit (to_dataframe (post_rows l rs) ! (length (to_dataframe l) + i)) = - Amount (rs ! i)))"
  by (simp add: to_dataframe_def entries_post_rows nth_append)

theorem posting_one_entry_per_row_in_order_witness:
  "to_dataframe (post_rows Ledger_init
      [\<lparr>Date = \<lparr>year = 2024, month = 1, day = 5\<rparr>, Description = Some ''Sale A'',
        Amount = 1000, GL_Account = ''Sales''\<rparr>,
       \<lparr>Date = \<lparr>year = 2024, month = 1, day = 9\<rparr>, Description = Some ''Rent'',
        Amount = - 500, GL_Account = ''Expenses''\<rparr>]) =
     [\<lparr>e_Date = \<lparr>year = 2024, month = 1, day = 5\<rparr>, Account = ''Sales'',
       Debit = 1000, Credit = 0, Narrative = Some ''Sale A''\<rparr>,
      \<lparr>e_Date = \<lparr>year = 2024, month = 1, day = 9\<rparr>, Account = ''Expenses'',
       Debit = 0, Credit = 500, Narrative = Some ''Rent''\<rparr>]"
  using posting_one_entry_per_row_in_order [of Ledger_init
      "[\<lparr>Date = \<lparr>year = 2024, month = 1, day = 5\<rparr>, Description = Some ''Sale A'',
        Amount = 1000, GL_Account = ''Sales''\<rparr>,
       \<lparr>Date = \<lparr>year = 2024, month = 1, day = 9\<rparr>, Description = Some ''Rent'',
        Amount = - 500, GL_Account = ''Expenses''\<rparr>]"]
  by (simp add: to_dataframe_def Ledger_init_def post_row_def post_def)

lemma entries_of_row_eq:
  "entries_of_row r =
     [\<lparr>e_Date = Date r, Account = GL_Account r,
       Debit = (if 0 \<le> Amount r then Amount r else 0),
       Credit = (if 0 \<le> Amount r then 0 else - Amount r),
       Narrative = Description r\<rparr>]"
  by (simp add: entries_of_row_def to_dataframe_def entries_post_row Ledger_init_def)

text \<open>
  Claim C8, at amount 0: the entry posted for a row of amount 0 has debit 0 and
  credit 0, so neither side is non-zero.
\<close>

theorem zero_amount_entry_has_no_side:
  "entries_of_row \<lparr>Date = \<lparr>year = 2024, month = 1, day = 5\<rparr>, Description = Some ''Fee waived'',
                    Amount = 0, GL_Account = ''Bank Charges''\<rparr> =
     [\<lparr>e_Date = \<lparr>year = 2024, month = 1, day = 5\<rparr>, Account = ''Bank Charges'',
       Debit = 0, Credit = 0, Narrative = Some ''Fee waived''\<rparr>]"
  by (simp add: entries_of_row_eq)

text \<open>
  Claim C8, amended. A row is posted as one entry; when the amount is not 0 exactly one
  of debit and credit is non-zero, and when the amount is 0 both are 0.
\<close>

theorem single_side_unless_zero:
  "\<exists>e. entries_of_row r = [e] \<and>
       (Amount r \<noteq> 0 \<longrightarrow> (Debit e \<noteq> 0) \<noteq> (Credit e \<noteq> 0)) \<and>
       (Amount r = 0 \<longrightarrow> Debit e = 0 \<and> Credit e = 0)"
  by (simp add: entries_of_row_eq)

theorem single_side_unless_zero_witness:
  "(- 500 :: real) \<noteq> 0 \<and>
   (\<exists>e. entries_of_row \<lparr>Date = \<lparr>year = 2024, month = 1, day = 9\<rparr>, Description = Some ''Rent'',
                         Amount = - 500, GL_Account = ''Expenses''\<rparr> = [e] \<and>
        (Debit e \<noteq> 0) \<noteq> (Credit e \<noteq> 0))"
  using single_side_unless_zero [of "\<lparr>Date = \<lparr>year = 2024, month = 1, day = 9\<rparr>,
      Description = Some ''Rent'', Amount = - 500, GL_Account = ''Expenses''\<rparr>"]
  by simp




subsection \<open>The trial balance\<close>

lemma sum_list_indicator_absent:
  "k \<notin> set as \<Longrightarrow> sum_list (map (\<lambda>a. if k = a then v else (0::real)) as) = 0"
  by (induction as) auto

lemma sum_list_indicator:
  "distinct as \<Longrightarrow> k \<in> set as \<Longrightarrow> sum_list (map (\<lambda>a. if k = a then v else (0::real)) as) = v"
  by (induction as) (auto simp: sum_list_indicator_absent)

lemma sum_list_groups:
  "distinct as \<Longrightarrow> Account ` set df \<subseteq> set as \<Longrightarrow>
   sum_list (map (\<lambda>a. sum_list (map f (group df a))) as) = sum_list (map (f :: entry \<Rightarrow> real) df)"
proof (induction df)
  case Nil
  then show ?case by (simp add: group_def)
next
  case (Cons e df)
  have k: "Account e \<in> set as" using Cons.prems by simp
  have "sum_list (map (\<lambda>a. sum_list (map f (group (e # df) a))) as) =
        sum_list (map (\<lambda>a. (if Account e = a then f e else 0) + sum_list (map f (group df a))) as)"
    by (rule arg_cong [where f = sum_list]) (simp add: group_def)
  also have "\<dots> = sum_list (map (\<lambda>a. if Account e = a then f e else 0) as) +
                   sum_list (map (\<lambda>a. sum_list (map f (group df a))) as)"
    by (simp add: sum_list_addf)
  also have "\<dots> = f e + sum_list (map f df)"
    using Cons sum_list_indicator [OF Cons.prems(1) k] by simp
  finally show ?case by simp
qed

lemma groupby_sum_nonempty:
  "df \<noteq> [] \<Longrightarrow> groupby_sum df =
     Inr (map (\<lambda>a. (a, sum_list (map Debit (group df a)), sum_list (map Credit (group df a))))
              (sort (remdups (map Account df))))"
  by (simp add: groupby_sum_def)

lemma trial_balance_nonempty:
  "entries l \<noteq> [] \<Longrightarrow> trial_balance l =
     Inr (map (\<lambda>a. \<lparr>tb_Account = a,
                    tb_Debit = sum_list (map Debit (group (entries l) a)),
                    tb_Credit = sum_list (map Credit (group (entries l) a)),
                    tb_Balance = sum_list (map Debit (group (entries l) a)) -
                                 sum_list (map Credit (group (entries l) a))\<rparr>)
              (sort (remdups (map Account (entries l)))))"
  by (simp add: trial_balance_def to_dataframe_def groupby_sum_nonempty comp_def)

lemma trial_balance_rows:
  assumes "entries l \<noteq> []"
  shows "\<exists>tb. trial_balance l = Inr tb \<and>
     distinct (map tb_Account tb) \<and> sorted (map tb_Account tb) \<and>
     set (map tb_Account tb) = Account ` set (entries l) \<and>
     (\<forall>r \<in> set tb.
        tb_Debit r = sum_list (map Debit (filter (\<lambda>e. Account e = tb_Account r) (entries l))) \<and>
        tb_Credit r = sum_list (map Credit (filter (\<lambda>e. Account e = tb_Account r) (entries l))) \<and>
        tb_Balance r = tb_Debit r - tb_Credit r) \<and>
     sum_list (map tb_Balance tb) =
       sum_list (map Debit (entries l)) - sum_list (map Credit (entries l))"
proof -
  let ?as = "sort (remdups (map Account (entries l)))"
  let ?row = "\<lambda>a. \<lparr>tb_Account = a,
                    tb_Debit = sum_list (map Debit (group (entries l) a)),
                    tb_Credit = sum_list (map Credit (group (entries l) a)),
                    tb_Balance = sum_list (map Debit (group (entries l) a)) -
                                 sum_list (map Credit (group (entries l) a))\<rparr>"
  let ?tb = "map ?row ?as"
  have tb: "trial_balance l = Inr ?tb" by (rule trial_balance_nonempty [OF assms])
  have acc: "map tb_Account ?tb = ?as" by (simp add: comp_def)
  have d: "distinct ?as" by simp
  have s: "Account ` set (entries l) \<subseteq> set ?as" by simp
  have c1: "distinct (map tb_Account ?tb)" unfolding acc by (rule d)
  have c2: "sorted (map tb_Account ?tb)" unfolding acc by simp
  have c3: "set (map tb_Account ?tb) = Account ` set (entries l)" unfolding acc by simp
  have c4: "\<forall>r \<in> set ?tb.
        tb_Debit r = sum_list (map Debit (filter (\<lambda>e. Account e = tb_Account r) (entries l))) \<and>
        tb_Credit r = sum_list (map Credit (filter (\<lambda>e. Account e = tb_Account r) (entries l))) \<and>
        tb_Balance r = tb_Debit r - tb_Credit r"
    by (auto simp: group_def)
  have "sum_list (map tb_Balance ?tb) =
        sum_list (map (\<lambda>a. sum_list (map Debit (group (entries l) a)) -
                           sum_list (map Credit (group (entries l) a))) ?as)"
    by (simp add: comp_def)
  also have "\<dots> = sum_list (map (\<lambda>a. sum_list (map Debit (group (entries l) a))) ?as) -
        sum_list (map (\<lambda>a. sum_list (map Credit (group (entries l) a))) ?as)"
    by (simp add: sum_list_subtractf)
  also have "\<dots> = sum_list (map Debit (entries l)) - sum_list (map Credit (entries l))"
    by (simp only: sum_list_groups [OF d s])
  finally have c5: "sum_list (map tb_Balance ?tb) =
        sum_list (map Debit (entries l)) - sum_list (map Credit (entries l))" .
  from tb c1 c2 c3 c4 c5 show ?thesis by blast
qed

text \<open>
  Claim C3, at the ledger without entries: \<open>groupby("Account")\<close> raises KeyError,
  so no trial balance is returned.
\<close>

theorem trial_balance_empty_ledger_raises:
  "trial_balance Ledger_init = Inl (KeyError ''Account'')"
  by (simp add: trial_balance_def Ledger_init_def to_dataframe_def groupby_sum_def)

subsection \<open>VAT\<close>

lemma py_round_grid: "\<exists>k::int. py_round x n = of_int k / 10 ^ n"
  unfolding py_round_def Let_def by blast

lemma py_round_close: "\<bar>py_round x n - x\<bar> \<le> 1 / (2 * 10 ^ n)"
proof -
  define y where "y = x * 10 ^ n"
  define f where "f = \<lfloor>y\<rfloor>"
  define r where "r = (if y - of_int f < 1 / 2 then f else if 1 / 2 < y - of_int f then f + 1
               else if even f then f else f + 1)"
  have p: "py_round x n = of_int r / 10 ^ n"
    by (simp add: py_round_def Let_def y_def f_def r_def)
  have "of_int f \<le> y" "y < of_int f + 1" unfolding f_def by linarith+
  then have h: "\<bar>of_int r - y\<bar> \<le> 1 / 2" unfolding r_def by (auto split: if_splits)
  have "\<bar>of_int r - y\<bar> / 10 ^ n \<le> (1 / 2) / 10 ^ n"
    by (rule divide_right_mono [OF h]) simp
  moreover have "of_int r / 10 ^ n - x = (of_int r - y) / 10 ^ n"
    by (simp add: y_def diff_divide_distrib)
  then have "\<bar>of_int r - y\<bar> / 10 ^ n = \<bar>of_int r / 10 ^ n - x\<bar>"
    by simp
  ultimately show ?thesis by (simp add: p)
qed

lemma scale2_powr: "scale2 x e = x * 2 powr (real_of_int e)"
  by (auto simp: scale2_def powr_realpow [symmetric] powr_minus field_simps)

lemma binade_ge1:
  assumes "1 \<le> x"
  shows "2 ^ nat (binade x) \<le> x" "x < 2 ^ nat (binade x + 1)" "0 \<le> binade x"
proof -
  let ?n = "\<lfloor>x\<rfloor>"
  have n: "0 < ?n" using assms by linarith
  from bitlen_bounds [OF n] have b: "2 ^ nat (bitlen ?n - 1) \<le> ?n" "?n < 2 ^ nat (bitlen ?n)"
    by auto
  have k: "1 \<le> bitlen ?n" using n by (simp add: bitlen_alt_def)
  show "0 \<le> binade x" using k assms by (simp add: binade_def)
  have q1: "real_of_int (2 ^ nat (bitlen ?n - 1)) \<le> real_of_int ?n"
    using b(1) by (simp only: of_int_le_iff)
  have q2: "real_of_int (2 ^ nat (bitlen ?n - 1)) = 2 ^ nat (bitlen ?n - 1)" by simp
  have q3: "real_of_int ?n \<le> x" by linarith
  from q1 q2 q3 have "2 ^ nat (bitlen ?n - 1) \<le> x" by linarith
  then show "2 ^ nat (binade x) \<le> x" using assms by (simp add: binade_def)
  have "?n + 1 \<le> 2 ^ nat (bitlen ?n)" using b(2) by linarith
  then have r1: "real_of_int (?n + 1) \<le> real_of_int (2 ^ nat (bitlen ?n))"
    by (simp only: of_int_le_iff)
  have r2: "real_of_int (2 ^ nat (bitlen ?n)) = 2 ^ nat (bitlen ?n)" by simp
  have r3: "x < real_of_int (?n + 1)" by linarith
  from r1 r2 r3 have "x < 2 ^ nat (bitlen ?n)" by linarith
  then show "x < 2 ^ nat (binade x + 1)" using assms by (simp add: binade_def)
qed

lemma binade_lt1:
  assumes "0 < x" "x < 1"
  shows "1 / 2 ^ nat (- binade x) \<le> x" "x < 2 / 2 ^ nat (- binade x)" "binade x < 0"
proof -
  let ?c = "\<lceil>1 / x\<rceil>"
  have y: "1 < 1 / x" using assms by simp
  then have c: "0 < ?c - 1" by linarith
  from bitlen_bounds [OF c] have b: "2 ^ nat (bitlen (?c - 1) - 1) \<le> ?c - 1" "?c - 1 < 2 ^ nat (bitlen (?c - 1))"
    by auto
  have k: "1 \<le> bitlen (?c - 1)" using c by (simp add: bitlen_alt_def)
  have e: "- binade x = bitlen (?c - 1)" using assms by (simp add: binade_def)
  show "binade x < 0" using e k by linarith
  have "?c \<le> 2 ^ nat (bitlen (?c - 1))" using b(2) by linarith
  then have r1: "real_of_int ?c \<le> real_of_int (2 ^ nat (bitlen (?c - 1)))"
    by (simp only: of_int_le_iff)
  have r2: "real_of_int (2 ^ nat (bitlen (?c - 1))) = 2 ^ nat (bitlen (?c - 1))" by simp
  have r3: "1 / x \<le> real_of_int ?c" by linarith
  from r1 r2 r3 have "1 / x \<le> 2 ^ nat (bitlen (?c - 1))" by linarith
  then have "1 / x \<le> 2 ^ nat (- binade x)" by (simp only: e)
  then show "1 / 2 ^ nat (- binade x) \<le> x" using assms(1) by (simp add: field_simps)
  have q1: "real_of_int (2 ^ nat (bitlen (?c - 1) - 1)) \<le> real_of_int (?c - 1)"
    using b(1) by (simp only: of_int_le_iff)
  have q2: "real_of_int (2 ^ nat (bitlen (?c - 1) - 1)) = 2 ^ nat (bitlen (?c - 1) - 1)" by simp
  have q3: "real_of_int (?c - 1) < 1 / x" by linarith
  from q1 q2 q3 have "2 ^ nat (bitlen (?c - 1) - 1) < 1 / x" by linarith
  moreover have "(2::real) ^ nat (bitlen (?c - 1)) = 2 * 2 ^ nat (bitlen (?c - 1) - 1)"
    using k by (metis Suc_nat_eq_nat_zadd1 add.commute diff_add_cancel diff_ge_0_iff_ge power_Suc)
  ultimately have "2 ^ nat (- binade x) < 2 / x" by (simp add: e)
  then show "x < 2 / 2 ^ nat (- binade x)" using assms(1) by (simp add: field_simps)
qed

lemma binade_bounds:
  assumes "0 < x"
  shows "scale2 1 (binade x) \<le> x \<and> x < scale2 1 (binade x + 1)"
proof (cases "1 \<le> x")
  case True
  from binade_ge1 [OF True] show ?thesis by (simp add: scale2_def)
next
  case False
  then have lt: "x < 1" by simp
  from binade_lt1 [OF assms lt] have a: "1 / 2 ^ nat (- binade x) \<le> x"
    and b: "x < 2 / 2 ^ nat (- binade x)" and c: "binade x < 0" by auto
  show ?thesis
  proof (cases "binade x = - 1")
    case True
    with a b show ?thesis by (simp add: scale2_def)
  next
    case False
    with c have d: "binade x + 1 < 0" by linarith
    have "(2::real) ^ nat (- binade x) = 2 * 2 ^ nat (- (binade x + 1))"
      using d by (metis Suc_nat_eq_nat_zadd1 add.commute diff_add_cancel minus_add_distrib
          neg_0_le_iff_le less_imp_le power_Suc uminus_add_conv_diff)
    with a b c d show ?thesis by (simp add: scale2_def)
  qed
qed

lemma scale2_mult: "scale2 x e = x * scale2 1 e"
  by (simp add: scale2_def)

lemma scale2_pos: "0 < scale2 1 e"
  by (simp add: scale2_def)

lemma scale2_inverse: "scale2 (scale2 x (- e)) e = x"
  by (simp add: scale2_def)

lemma b64_nearest:
  assumes "x \<noteq> 0"
  shows "(\<exists>m::int. b64 x = scale2 (of_int m) (binade \<bar>x\<bar> - 52)) \<and>
         \<bar>b64 x - x\<bar> \<le> scale2 (1 / 2) (binade \<bar>x\<bar> - 52)"
proof -
  define e where "e = binade \<bar>x\<bar> - 52"
  define y where "y = scale2 x (- e)"
  have b: "b64 x = scale2 (py_round y 0) e"
    using assms by (simp add: b64_def Let_def e_def y_def)
  obtain m :: int where m: "py_round y 0 = of_int m"
    using py_round_grid [of y 0] by auto
  have x: "x = scale2 y e" by (simp add: y_def scale2_inverse)
  have "\<bar>py_round y 0 - y\<bar> \<le> 1 / 2" using py_round_close [of y 0] by simp
  then have "\<bar>py_round y 0 - y\<bar> * scale2 1 e \<le> (1 / 2) * scale2 1 e"
    using scale2_pos [of e] by (simp add: mult_right_mono)
  moreover have "\<bar>b64 x - x\<bar> = \<bar>py_round y 0 - y\<bar> * scale2 1 e"
  proof -
    have "b64 x - x = (py_round y 0 - y) * scale2 1 e"
      by (simp only: b scale2_mult [of "py_round y 0"] scale2_mult [of y] x [symmetric] left_diff_distrib)
         (simp add: x scale2_mult [of y])
    then show ?thesis using scale2_pos [of e] by (simp add: abs_mult)
  qed
  ultimately have "\<bar>b64 x - x\<bar> \<le> scale2 (1 / 2) e" by (simp add: scale2_mult [of "1 / 2"])
  with b m show ?thesis unfolding e_def by auto
qed



lemma scenario_vat: "calculate_vat 1000 = 13043 / 100" "calculate_vat (- 500) = - (6522 / 100)"
  by (simp_all add: calculate_vat_def VAT_RATE_def py_round_def)






text \<open>The scenario of the specification, from the labeled rows to the VAT report.\<close>

lemma scenario_pipeline:
  "map_sum id vat_stage
     (trial_balance (post_rows Ledger_init
        [\<lparr>Date = \<lparr>year = 2024, month = 1, day = 5\<rparr>, Description = Some ''Sale A'',
          Amount = 1000, GL_Account = ''Sales''\<rparr>,
         \<lparr>Date = \<lparr>year = 2024, month = 1, day = 9\<rparr>, Description = Some ''Rent'',
          Amount = - 500, GL_Account = ''Expenses''\<rparr>])) =
   Inr \<lparr>VAT_on_Outputs = 13043 / 100, VAT_on_Inputs = - (6522 / 100),
        Net_VAT_Due = 19565 / 100\<rparr>"
  by code_simp

end
